theory Spec2Isabelle
  imports Complex_Main "HOL-Library.AList"
begin

section \<open>Portfolio analytics of the backend service (services/schedulerService.ts)\<close>

text \<open>
  The service computes over JavaScript numbers. The embedding computes over the reals:
  rounding is not modelled. JavaScript never raises on a division by zero: the quotient
  is Infinity or NaN and flows on into every later result. The reals have no such
  values, so wherever the source divides by a quantity that no guard keeps away from
  zero, the embedding tests the divisor and reports \<open>NonFinite\<close> instead of
  continuing with a value that HOL's total division would invent.
  Exceptions of the source are values of the same type \<open>fault\<close>.
\<close>

subsection \<open>Ledger data\<close>

datatype TransactionType =
  BUY | SELL | TRANSFER_IN | TRANSFER_OUT | STAKE | UNSTAKE | REWARD | AIRDROP

type_synonym timestamp = int
  \<comment> \<open>milliseconds since the epoch, what \<open>Date.getTime()\<close> returns\<close>

record Transaction =
  txType :: TransactionType
  amount :: real
  pricePerToken :: "real option"
  totalValue :: "real option"
  txDate :: timestamp
  tokenSymbol :: string
  \<comment> \<open>\<open>tokenSymbol\<close> is \<open>transaction.holding.tokenSymbol\<close> of the included holding\<close>

datatype fault =
  HoldingNotFound  \<comment> \<open>\<open>throw new Error('Holding not found')\<close>\<close>
| QueryFailed      \<comment> \<open>a rejected database query\<close>
| OracleFailed     \<comment> \<open>a rejected price lookup\<close>
| NonFinite        \<comment> \<open>not an exception: a division by zero produced Infinity or NaN\<close>

text \<open>\<open>x || d\<close> on a nullable number: \<open>null\<close> and \<open>0\<close> are both falsy.\<close>

definition js_or :: "real option \<Rightarrow> real \<Rightarrow> real" where
  "js_or x d = (case x of None \<Rightarrow> d | Some v \<Rightarrow> if v = 0 then d else v)"

text \<open>\<open>x || null\<close> on a number that may be \<open>undefined\<close>: a computed \<open>0\<close> becomes \<open>null\<close>.\<close>

definition js_or_null :: "real option \<Rightarrow> real option" where
  "js_or_null x = (case x of None \<Rightarrow> None | Some v \<Rightarrow> if v = 0 then None else Some v)"

definition txValue :: "Transaction \<Rightarrow> real" where
  "txValue t = (let price = js_or (pricePerToken t) 0
                in js_or (totalValue t) (amount t * price))"

subsection \<open>calculateHoldingMetrics\<close>

text \<open>
  The loop variables \<open>(totalCostBasis, totalAmount, realizedPnL)\<close> are a triple.
  \<open>holdingStep\<close> is the body of the \<open>for\<close> loop, one \<open>switch\<close> on the transaction type.
\<close>

type_synonym totals = "real \<times> real \<times> real"

fun holdingStep :: "totals \<Rightarrow> Transaction \<Rightarrow> fault + totals" where
  "holdingStep (totalCostBasis, totalAmount, realizedPnL) t =
     (let amt = amount t; v = txValue t in
      case txType t of
        BUY \<Rightarrow> Inr (totalCostBasis + v, totalAmount + amt, realizedPnL)
      | TRANSFER_IN \<Rightarrow> Inr (totalCostBasis + v, totalAmount + amt, realizedPnL)
      | AIRDROP \<Rightarrow> Inr (totalCostBasis + v, totalAmount + amt, realizedPnL)
      | REWARD \<Rightarrow> Inr (totalCostBasis + v, totalAmount + amt, realizedPnL)
      | SELL \<Rightarrow>
          (let totalAmount' = totalAmount - amt in
           if totalCostBasis > 0 then
             (if totalAmount' + amt = 0 then Inl NonFinite
              else
                let avgCostBasis = totalCostBasis / (totalAmount' + amt);
                    costOfSold = avgCostBasis * amt
                in Inr (totalCostBasis - costOfSold, totalAmount',
                        realizedPnL + (v - costOfSold)))
           else Inr (totalCostBasis, totalAmount', realizedPnL))
      | TRANSFER_OUT \<Rightarrow> Inr (totalCostBasis, totalAmount - amt, realizedPnL)
      | STAKE \<Rightarrow> Inr (totalCostBasis, totalAmount, realizedPnL)
      | UNSTAKE \<Rightarrow> Inr (totalCostBasis, totalAmount, realizedPnL))"

fun holdingLoop :: "totals \<Rightarrow> Transaction list \<Rightarrow> fault + totals" where
  "holdingLoop s [] = Inr s"
| "holdingLoop s (t # ts) =
     (case holdingStep s t of Inl e \<Rightarrow> Inl e | Inr s' \<Rightarrow> holdingLoop s' ts)"

text \<open>The \<open>data\<close> object written back by \<open>prisma.portfolioHolding.update\<close>.\<close>

record HoldingData =
  currentAmount :: real
  averageCostBasis :: "real option"
  totalCostBasis :: real
  realizedPnL :: real

text \<open>
  \<open>findUnique\<close> is the first argument: the transactions of the holding with the given
  id, or \<open>None\<close> when there is no such holding.
\<close>

definition calculateHoldingMetrics ::
  "(string \<Rightarrow> Transaction list option) \<Rightarrow> string \<Rightarrow> fault + HoldingData" where
  "calculateHoldingMetrics findUnique holdingId =
     (case findUnique holdingId of
        None \<Rightarrow> Inl HoldingNotFound
      | Some transactions \<Rightarrow>
          (case holdingLoop (0, 0, 0) transactions of
             Inl e \<Rightarrow> Inl e
           | Inr (basis, totalAmount, pnl) \<Rightarrow>
               Inr \<lparr> currentAmount = totalAmount,
                     averageCostBasis =
                       (if totalAmount > 0 then Some (basis / totalAmount) else None),
                     totalCostBasis = basis,
                     realizedPnL = pnl \<rparr>))"

subsection \<open>estimatePortfolioValueAtDate\<close>

text \<open>
  \<open>holdingsAtDate\<close> is an object keyed by token symbol whose entries are read back with
  \<open>Object.entries\<close>, in insertion order: an association list. \<open>AList.update\<close>
  replaces the entry of a key in place and appends the entry of a new key.
\<close>

record HoldingAtDate =
  heldAmount :: real  \<comment> \<open>the field \<open>amount\<close>\<close>
  costBasis :: real

type_synonym holdings = "(string \<times> HoldingAtDate) list"

text \<open>
  The branch of SELL and TRANSFER_OUT. The divisor \<open>amount + sold\<close> is read after the
  subtraction; the guard makes the new amount positive, not the divisor.
\<close>

definition outflow :: "HoldingAtDate \<Rightarrow> real \<Rightarrow> fault + HoldingAtDate" where
  "outflow h sold =
     (let amount' = heldAmount h - sold in
      if amount' > 0 then
        (if amount' + sold = 0 then Inl NonFinite
         else
           let ratio = sold / (amount' + sold)
           in Inr \<lparr> heldAmount = amount', costBasis = costBasis h * (1 - ratio) \<rparr>)
      else Inr \<lparr> heldAmount = amount', costBasis = costBasis h \<rparr>)"

definition positionStep :: "HoldingAtDate \<Rightarrow> Transaction \<Rightarrow> fault + HoldingAtDate" where
  "positionStep h t =
     (let amt = amount t;
          v = js_or (totalValue t) (js_or (pricePerToken t) 0 * amt);
          inflow = \<lparr> heldAmount = heldAmount h + amt, costBasis = costBasis h + v \<rparr>
      in case txType t of
           BUY \<Rightarrow> Inr inflow
         | TRANSFER_IN \<Rightarrow> Inr inflow
         | AIRDROP \<Rightarrow> Inr inflow
         | REWARD \<Rightarrow> Inr inflow
         | SELL \<Rightarrow> outflow h amt
         | TRANSFER_OUT \<Rightarrow> outflow h amt
         | STAKE \<Rightarrow> Inr h
         | UNSTAKE \<Rightarrow> Inr h)"

text \<open>
  \<open>if (!holdingsAtDate[symbol]) holdingsAtDate[symbol] = { amount: 0, costBasis: 0 }\<close>
  followed by the reads of \<open>holdingsAtDate[symbol]\<close>.
\<close>

definition lookupHolding :: "holdings \<Rightarrow> string \<Rightarrow> HoldingAtDate" where
  "lookupHolding holdingsAtDate symbol =
     (case map_of holdingsAtDate symbol of
        None \<Rightarrow> \<lparr> heldAmount = 0, costBasis = 0 \<rparr>
      | Some h \<Rightarrow> h)"

definition replayStep :: "holdings \<Rightarrow> Transaction \<Rightarrow> fault + holdings" where
  "replayStep holdingsAtDate t =
     (let symbol = tokenSymbol t;
          h = lookupHolding holdingsAtDate symbol
      in case positionStep h t of
           Inl e \<Rightarrow> Inl e
         | Inr h' \<Rightarrow> Inr (AList.update symbol h' holdingsAtDate))"

fun replayLoop :: "holdings \<Rightarrow> Transaction list \<Rightarrow> fault + holdings" where
  "replayLoop hs [] = Inr hs"
| "replayLoop hs (t # ts) =
     (case replayStep hs t of Inl e \<Rightarrow> Inl e | Inr hs' \<Rightarrow> replayLoop hs' ts)"

text \<open>
  The price oracle \<open>getHistoricalPrice\<close>: \<open>Inl\<close> when the call rejects, \<open>Inr None\<close> when
  it resolves to \<open>null\<close>. \<open>if (historicalPrice)\<close> is false for \<open>null\<close> and for \<open>0\<close>.
\<close>

type_synonym priceOracle = "string \<Rightarrow> timestamp \<Rightarrow> fault + real option"

definition contribution :: "priceOracle \<Rightarrow> timestamp \<Rightarrow> string \<times> HoldingAtDate \<Rightarrow> real" where
  "contribution getHistoricalPrice targetDate e =
     (let symbol = fst e; holding = snd e in
      if heldAmount holding > 0 then
        (case getHistoricalPrice symbol targetDate of
           Inr (Some historicalPrice) \<Rightarrow>
             if historicalPrice \<noteq> 0 then heldAmount holding * historicalPrice
             else costBasis holding
         | Inr None \<Rightarrow> costBasis holding
         | Inl err \<Rightarrow> costBasis holding)
      else 0)"

fun sumHoldings :: "priceOracle \<Rightarrow> timestamp \<Rightarrow> real \<Rightarrow> holdings \<Rightarrow> real" where
  "sumHoldings g d acc [] = acc"
| "sumHoldings g d acc (e # es) = sumHoldings g d (acc + contribution g d e) es"

text \<open>
  The ledger query \<open>prisma.transaction.findMany\<close>: for a user and a target date, the
  user's transactions dated up to the target in ascending date order, or a rejection.
\<close>

type_synonym ledger = "string \<Rightarrow> timestamp \<Rightarrow> fault + Transaction list"

definition estimatePortfolioValueAtDate ::
  "ledger \<Rightarrow> priceOracle \<Rightarrow> string \<Rightarrow> timestamp \<Rightarrow> fault + real" where
  "estimatePortfolioValueAtDate findMany getHistoricalPrice userId targetDate =
     (case findMany userId targetDate of
        Inl e \<Rightarrow> Inl e
      | Inr transactions \<Rightarrow>
          (case replayLoop [] transactions of
             Inl e \<Rightarrow> Inl e
           | Inr hs \<Rightarrow> Inr (sumHoldings getHistoricalPrice targetDate 0 hs)))"

subsection \<open>calculateDailyReturns\<close>

record DailyReturnPoint =
  date :: timestamp
  value' :: real   \<comment> \<open>the field \<open>value\<close>\<close>
  return' :: real  \<comment> \<open>the field \<open>return\<close>\<close>

definition msPerDay :: int where
  "msPerDay = 24 * 60 * 60 * 1000"

text \<open>
  The loop \<open>for (let i = 0; i < days; i++)\<close> over the indices still to visit, with the
  variables \<open>previousValue\<close> and \<open>dailyValues\<close>. A valuation that throws is caught and
  its day is left out; a valuation that is not finite is not an exception.
\<close>

fun dailyLoop ::
  "(timestamp \<Rightarrow> fault + real) \<Rightarrow> timestamp \<Rightarrow> nat list \<Rightarrow> real option \<Rightarrow>
   DailyReturnPoint list \<Rightarrow> fault + DailyReturnPoint list" where
  "dailyLoop valueAt startDate [] previousValue dailyValues = Inr dailyValues"
| "dailyLoop valueAt startDate (i # rest) previousValue dailyValues =
     (let currentDate = startDate + int i * msPerDay in
      case valueAt currentDate of
        Inr portfolioValue \<Rightarrow>
          (let dailyReturn =
                 (case previousValue of
                    Some prev \<Rightarrow>
                      if prev > 0 then ((portfolioValue - prev) / prev) * 100 else 0
                  | None \<Rightarrow> 0)
           in dailyLoop valueAt startDate rest (Some portfolioValue)
                (dailyValues @
                   [\<lparr> date = currentDate, value' = portfolioValue, return' = dailyReturn \<rparr>]))
      | Inl NonFinite \<Rightarrow> Inl NonFinite
      | Inl err \<Rightarrow> dailyLoop valueAt startDate rest previousValue dailyValues)"

text \<open>\<open>now\<close> is the clock reading \<open>new Date()\<close> of the call.\<close>

definition calculateDailyReturns ::
  "ledger \<Rightarrow> priceOracle \<Rightarrow> timestamp \<Rightarrow> string \<Rightarrow> nat \<Rightarrow> fault + DailyReturnPoint list" where
  "calculateDailyReturns findMany getHistoricalPrice now userId days =
     (let endDate = now;
          startDate = endDate - int days * msPerDay
      in dailyLoop (estimatePortfolioValueAtDate findMany getHistoricalPrice userId)
           startDate [0..<days] None [])"

subsection \<open>calculateMaxDrawdown\<close>

fun drawdownLoop ::
  "DailyReturnPoint list \<Rightarrow> real \<times> timestamp \<Rightarrow> real \<times> (timestamp \<times> timestamp) option \<Rightarrow>
   real \<times> (timestamp \<times> timestamp) option" where
  "drawdownLoop [] (peak, peakDate) (maxDrawdown, period) = (maxDrawdown, period)"
| "drawdownLoop (day # rest) (peak, peakDate) (maxDrawdown, period) =
     (let peak' = (if value' day > peak then value' day else peak);
          peakDate' = (if value' day > peak then date day else peakDate);
          drawdown = (if peak' > 0 then ((peak' - value' day) / peak') * 100 else 0)
      in if drawdown > maxDrawdown
         then drawdownLoop rest (peak', peakDate') (drawdown, Some (peakDate', date day))
         else drawdownLoop rest (peak', peakDate') (maxDrawdown, period))"

text \<open>The result \<open>{ maxDrawdown, maxDrawdownPeriod }\<close> is a pair, the period \<open>(start, end)\<close>.\<close>

definition calculateMaxDrawdown ::
  "DailyReturnPoint list \<Rightarrow> real option \<times> (timestamp \<times> timestamp) option" where
  "calculateMaxDrawdown dailyReturns =
     (case dailyReturns of
        [] \<Rightarrow> (None, None)
      | first # _ \<Rightarrow>
          (let r = drawdownLoop dailyReturns (value' first, date first) (0, None)
           in (if fst r > 0 then Some (fst r) else None, snd r)))"

subsection \<open>calculateAdvancedMetrics\<close>

record AdvancedPortfolioMetrics =
  sharpeRatio :: "real option"
  volatility :: "real option"
  maxDrawdown :: "real option"
  maxDrawdownPeriod :: "(timestamp \<times> timestamp) option"
  averageReturn :: real
  winRate :: real
  bestDay :: "(timestamp \<times> real) option"   \<comment> \<open>\<open>{ date, return }\<close>\<close>
  worstDay :: "(timestamp \<times> real) option"
  totalTradingDays :: nat

definition emptyAdvancedMetrics :: AdvancedPortfolioMetrics where
  "emptyAdvancedMetrics =
     \<lparr> sharpeRatio = None, volatility = None, maxDrawdown = None, maxDrawdownPeriod = None,
       averageReturn = 0, winRate = 0, bestDay = None, worstDay = None,
       totalTradingDays = 0 \<rparr>"

text \<open>\<open>xs.reduce((sum, r) => sum + r, 0)\<close> and \<open>xs.indexOf(x)\<close> (\<open>None\<close> for \<open>-1\<close>).\<close>

definition reduceSum :: "real list \<Rightarrow> real" where
  "reduceSum xs = foldl (\<lambda>sum r. sum + r) 0 xs"

fun indexOf :: "real list \<Rightarrow> real \<Rightarrow> nat option" where
  "indexOf [] x = None"
| "indexOf (y # ys) x = (if y = x then Some 0 else map_option Suc (indexOf ys x))"

text \<open>The function after \<open>await calculateDailyReturns(userId, 365)\<close>.\<close>

definition advancedMetricsOf :: "DailyReturnPoint list \<Rightarrow> AdvancedPortfolioMetrics" where
  "advancedMetricsOf dailyReturns =
     (if length dailyReturns = 0 then emptyAdvancedMetrics
      else
        let returns = map return' dailyReturns;
            average = reduceSum returns / real (length returns);
            variance = reduceSum (map (\<lambda>r. (r - average)\<^sup>2) returns) / real (length returns);
            vol = sqrt variance * sqrt 365;
            sharpe = (if vol > 0 then Some ((average * 365) / vol) else None);
            drawdown = calculateMaxDrawdown dailyReturns;
            winningDays = length (filter (\<lambda>r. r > 0) returns);
            rate = (real winningDays / real (length returns)) * 100;
            bestDayIndex = indexOf returns (Max (set returns));
            worstDayIndex = indexOf returns (Min (set returns));
            best = (case bestDayIndex of
                      Some i \<Rightarrow> Some (date (dailyReturns ! i), returns ! i)
                    | None \<Rightarrow> None);
            worst = (case worstDayIndex of
                       Some i \<Rightarrow> Some (date (dailyReturns ! i), returns ! i)
                     | None \<Rightarrow> None)
        in \<lparr> sharpeRatio = sharpe, volatility = Some vol,
             maxDrawdown = fst drawdown, maxDrawdownPeriod = snd drawdown,
             averageReturn = average * 365, winRate = rate,
             bestDay = best, worstDay = worst,
             totalTradingDays = length returns \<rparr>)"

definition calculateAdvancedMetrics ::
  "ledger \<Rightarrow> priceOracle \<Rightarrow> timestamp \<Rightarrow> string \<Rightarrow> fault + AdvancedPortfolioMetrics" where
  "calculateAdvancedMetrics findMany getHistoricalPrice now userId =
     (case calculateDailyReturns findMany getHistoricalPrice now userId 365 of
        Inl e \<Rightarrow> Inl e
      | Inr dailyReturns \<Rightarrow> Inr (advancedMetricsOf dailyReturns))"

subsection \<open>calculateRiskMetrics\<close>

record RiskMetrics =
  valueAtRisk95 :: "real option"
  valueAtRisk99 :: "real option"
  conditionalValueAtRisk :: "real option"
  downsideDeviation :: "real option"
  sortinoRatio :: "real option"

definition emptyRiskMetrics :: RiskMetrics where
  "emptyRiskMetrics =
     \<lparr> valueAtRisk95 = None, valueAtRisk99 = None, conditionalValueAtRisk = None,
       downsideDeviation = None, sortinoRatio = None \<rparr>"

text \<open>
  \<open>Math.floor(returns.length * 0.05)\<close> and \<open>Math.floor(returns.length * 0.01)\<close>, over
  the reals. The doubles nearest to 0.05 and 0.01 lie above them by less than one part
  in \<open>10^16\<close>, so for the lengths an array can have the rounded products have the same
  floors.
\<close>

definition var95Index :: "nat \<Rightarrow> nat" where
  "var95Index n = nat \<lfloor>real n * 0.05\<rfloor>"

definition var99Index :: "nat \<Rightarrow> nat" where
  "var99Index n = nat \<lfloor>real n * 0.01\<rfloor>"

text \<open>\<open>xs[i]\<close> is \<open>undefined\<close> out of range.\<close>

definition elemAt :: "real list \<Rightarrow> nat \<Rightarrow> real option" where
  "elemAt xs i = (if i < length xs then Some (xs ! i) else None)"

text \<open>
  The function after \<open>await calculateDailyReturns(userId, 365)\<close>. The comparator
  \<open>(a, b) => a - b\<close> sorts the numbers ascending.
\<close>

definition riskMetricsOf :: "DailyReturnPoint list \<Rightarrow> RiskMetrics" where
  "riskMetricsOf dailyReturns =
     (if length dailyReturns = 0 then emptyRiskMetrics
      else
        let returns = sort (map return' dailyReturns);
            average = reduceSum returns / real (length returns);
            i95 = var95Index (length returns);
            i99 = var99Index (length returns);
            var95 = js_or_null (elemAt returns i95);
            var99 = js_or_null (elemAt returns i99);
            worstReturns = take (i95 + 1) returns;
            cvar = (if length worstReturns > 0
                    then Some (reduceSum worstReturns / real (length worstReturns))
                    else None);
            negativeReturns = filter (\<lambda>r. r < 0) returns;
            downside = (if length negativeReturns > 0
                        then Some (sqrt (reduceSum (map (\<lambda>r. r\<^sup>2) negativeReturns)
                                           / real (length negativeReturns)))
                        else None);
            sortino = (case downside of
                         Some dd \<Rightarrow>
                           if dd \<noteq> 0 \<and> dd > 0
                           then Some ((average * 365) / (dd * sqrt 365)) else None
                       | None \<Rightarrow> None)
        in \<lparr> valueAtRisk95 = var95, valueAtRisk99 = var99, conditionalValueAtRisk = cvar,
             downsideDeviation = downside, sortinoRatio = sortino \<rparr>)"

definition calculateRiskMetrics ::
  "ledger \<Rightarrow> priceOracle \<Rightarrow> timestamp \<Rightarrow> string \<Rightarrow> fault + RiskMetrics" where
  "calculateRiskMetrics findMany getHistoricalPrice now userId =
     (case calculateDailyReturns findMany getHistoricalPrice now userId 365 of
        Inl e \<Rightarrow> Inl e
      | Inr dailyReturns \<Rightarrow> Inr (riskMetricsOf dailyReturns))"

subsection \<open>getEnhancedPortfolioMetrics\<close>

text \<open>
  The summary, the time-based performance entries and the benchmark comparisons are
  only passed through: their types are parameters.
\<close>

record ('s, 't, 'b) EnhancedPortfolioMetrics =
  summary :: 's
  timeBasedPerformance :: "'t list"
  advancedMetrics :: AdvancedPortfolioMetrics
  benchmarkComparisons :: "'b list"
  riskMetrics :: RiskMetrics

text \<open>
  The arguments are the outcomes of the five calls given to \<open>Promise.all\<close>, which
  rejects as soon as one of them rejects, with the rejection of the first in settling
  order (here: in argument order), and the outcome of the second call of
  \<open>getPortfolioSummary\<close>, made in the \<open>catch\<close> block.
\<close>

definition getEnhancedPortfolioMetrics ::
  "fault + 's \<Rightarrow> fault + 't list \<Rightarrow> fault + AdvancedPortfolioMetrics \<Rightarrow> fault + RiskMetrics \<Rightarrow>
   fault + 'b list \<Rightarrow> fault + 's \<Rightarrow> fault + ('s, 't, 'b) EnhancedPortfolioMetrics" where
  "getEnhancedPortfolioMetrics summary1 timeBased advanced risk benchmarks summary2 =
     (case (summary1, timeBased, advanced, risk, benchmarks) of
        (Inr s, Inr t, Inr a, Inr r, Inr b) \<Rightarrow>
          Inr \<lparr> summary = s, timeBasedPerformance = t, advancedMetrics = a,
                benchmarkComparisons = b, riskMetrics = r \<rparr>
      | _ \<Rightarrow>
          (case summary2 of
             Inl e \<Rightarrow> Inl e
           | Inr s \<Rightarrow>
               Inr \<lparr> summary = s, timeBasedPerformance = [],
                     advancedMetrics = emptyAdvancedMetrics,
                     benchmarkComparisons = [], riskMetrics = emptyRiskMetrics \<rparr>))"

subsection \<open>Concrete inputs\<close>

definition mkTx :: "TransactionType \<Rightarrow> real \<Rightarrow> real option \<Rightarrow> real option \<Rightarrow> Transaction" where
  "mkTx ty a p v =
     \<lparr> txType = ty, amount = a, pricePerToken = p, totalValue = v,
       txDate = 0, tokenSymbol = ''BTC'' \<rparr>"

definition scenarioA :: "string \<Rightarrow> Transaction list option" where
  "scenarioA h = Some [mkTx BUY 1 (Some 40000) (Some 40000),
                       mkTx SELL (1/2) (Some 50000) (Some 25000)]"



definition emptiedThenSell :: "string \<Rightarrow> Transaction list option" where
  "emptiedThenSell h = Some [mkTx BUY 1 None (Some 100),
                             mkTx TRANSFER_OUT 1 None None,
                             mkTx SELL 1 None (Some 50)]"

definition boughtOne :: "Transaction list" where
  "boughtOne = [mkTx BUY 1 None (Some 100)]"

definition soldOut :: "Transaction list" where
  "soldOut = boughtOne @ [mkTx SELL 1 None (Some 120)]"

definition emptyLedger :: ledger where
  "emptyLedger userId targetDate = Inr []"

definition flakyLedger :: ledger where
  "flakyLedger userId targetDate =
     (if targetDate = - 86400000 then Inl QueryFailed else Inr [])"

definition downLedger :: ledger where
  "downLedger userId targetDate = Inl QueryFailed"

definition noPrices :: priceOracle where
  "noPrices symbol targetDate = Inr None"

definition point :: "timestamp \<Rightarrow> real \<Rightarrow> real \<Rightarrow> DailyReturnPoint" where
  "point d v r = \<lparr> date = d, value' = v, return' = r \<rparr>"

definition twoSymbols :: ledger where
  "twoSymbols userId targetDate =
     Inr [mkTx BUY 1 None (Some 5000),
          (mkTx BUY 2 None (Some 3000))\<lparr> tokenSymbol := ''ETH'' \<rparr>]"

definition ethOnly :: priceOracle where
  "ethOnly symbol targetDate =
     (if symbol = ''ETH'' then Inr (Some 2000) else Inl OracleFailed)"

definition zeroAtTail :: "DailyReturnPoint list" where
  "zeroAtTail = [point 0 100 0, point 1 105 5, point 2 107.1 2]"

definition twentyDays :: "DailyReturnPoint list" where
  "twentyDays = map (\<lambda>i. point (int i) 100 (real i - 5)) [0..<20]"

definition scenarioC :: "DailyReturnPoint list" where
  "scenarioC = [point 0 100 0, point 1 110 10, point 2 99 (- 10), point 3 105 (600 / 99)]"

definition declineBelowZero :: "DailyReturnPoint list" where
  "declineBelowZero = [point 0 0 0, point 1 (- 5) 0]"

text \<open>How the comparison \<open>a <= b\<close> of JavaScript reads a \<open>null\<close> operand: as \<open>0\<close>.\<close>

definition nullAsZero :: "real option \<Rightarrow> real" where
  "nullAsZero x = (case x of None \<Rightarrow> 0 | Some v \<Rightarrow> v)"

text \<open>
  A specification-side predicate, not part of the service: walking the values with the
  running peak \<open>peak\<close>, some value lies below a positive running peak.
\<close>

fun declineAfter :: "real \<Rightarrow> real list \<Rightarrow> bool" where
  "declineAfter peak [] = False"
| "declineAfter peak (v # vs) = ((0 < max peak v \<and> v < max peak v) \<or> declineAfter (max peak v) vs)"

text \<open>
  A specification-side function, not part of the service: the percentage return of a
  value against the value of the point before it, if there is one.
\<close>

definition returnAgainst :: "real option \<Rightarrow> real \<Rightarrow> real" where
  "returnAgainst previousValue portfolioValue =
     (case previousValue of
        Some prev \<Rightarrow> if prev > 0 then ((portfolioValue - prev) / prev) * 100 else 0
      | None \<Rightarrow> 0)"

section \<open>Cost-basis tracker\<close>

lemma txValue_mkTx [simp]:
  "txValue (mkTx ty a p v) = js_or v (a * js_or p 0)"
  by (simp add: txValue_def mkTx_def)

lemma mkTx_sel [simp]:
  "txType (mkTx ty a p v) = ty" "amount (mkTx ty a p v) = a"
  by (simp_all add: mkTx_def)

text \<open>
  C2. One BUY of amount 1 with total value 40000 followed by one SELL of amount 0.5
  with total value 25000: the holding is recomputed to amount 0.5, total cost basis
  20000 and realized P&L 5000 (and average cost basis 40000).
\<close>

theorem scenario_A_buy_then_sell:
  assumes "findUnique h = Some [b, s]"
    and "txType b = BUY" and "amount b = 1" and "txValue b = 40000"
    and "txType s = SELL" and "amount s = 1/2" and "txValue s = 25000"
  shows "calculateHoldingMetrics findUnique h =
           Inr \<lparr> currentAmount = 1/2, averageCostBasis = Some 40000,
                 totalCostBasis = 20000, realizedPnL = 5000 \<rparr>"
proof -
  have buy: "holdingStep (0, 0, 0) b = Inr (40000, 1, 0)"
    by (simp add: assms)
  have sell: "holdingStep (40000, 1, 0) s = Inr (20000, 1/2, 5000)"
    by (simp add: assms Let_def)
  have "holdingLoop (0, 0, 0) [b, s] = Inr (20000, 1/2, 5000)"
    by (simp add: buy sell del: holdingStep.simps)
  then show ?thesis
    by (simp add: calculateHoldingMetrics_def assms(1))
qed

theorem scenario_A_witness:
  "calculateHoldingMetrics scenarioA ''h1'' =
     Inr \<lparr> currentAmount = 1/2, averageCostBasis = Some 40000,
           totalCostBasis = 20000, realizedPnL = 5000 \<rparr>"
  by (rule scenario_A_buy_then_sell [where b = "mkTx BUY 1 (Some 40000) (Some 40000)"
        and s = "mkTx SELL (1/2) (Some 50000) (Some 25000)"])
     (simp_all add: scenarioA_def js_or_def)




text \<open>
  The zero divisor is reached from an empty holding: a BUY of 1 for 100 followed by a
  TRANSFER_OUT of 1 keeps the cost basis 100 with the amount 0, and the SELL divides
  100 by 0.
\<close>

lemma sell_with_zero_amount_divides_by_zero:
  "calculateHoldingMetrics emptiedThenSell ''h1'' = Inl NonFinite"
  by (simp add: calculateHoldingMetrics_def emptiedThenSell_def js_or_def Let_def)

section \<open>Historical valuation\<close>

text \<open>
  C5 (as the code has it). An outflow (SELL or TRANSFER_OUT) that leaves a positive
  amount multiplies the cost basis of the symbol by 1 - sold / amount-before; an
  outflow that brings the amount to zero or below leaves the cost basis as it was.
\<close>

theorem outflow_cost_basis:
  assumes "txType t = SELL \<or> txType t = TRANSFER_OUT"
    and "h = lookupHolding hs (tokenSymbol t)"
  shows "(0 < heldAmount h - amount t \<and> heldAmount h \<noteq> 0 \<longrightarrow>
            replayStep hs t =
              Inr (AList.update (tokenSymbol t)
                     \<lparr> heldAmount = heldAmount h - amount t,
                       costBasis = costBasis h * (1 - amount t / heldAmount h) \<rparr> hs)) \<and>
         (heldAmount h - amount t \<le> 0 \<longrightarrow>
            replayStep hs t =
              Inr (AList.update (tokenSymbol t)
                     \<lparr> heldAmount = heldAmount h - amount t, costBasis = costBasis h \<rparr> hs))"
  using assms by (auto simp add: replayStep_def positionStep_def outflow_def Let_def)

theorem outflow_cost_basis_witness:
  "replayStep [(''BTC'', \<lparr> heldAmount = 4, costBasis = 100 \<rparr>)] (mkTx SELL 1 None (Some 120)) =
     Inr [(''BTC'', \<lparr> heldAmount = 3, costBasis = 75 \<rparr>)] \<and>
   replayStep [(''BTC'', \<lparr> heldAmount = 1, costBasis = 100 \<rparr>)] (mkTx TRANSFER_OUT 1 None None) =
     Inr [(''BTC'', \<lparr> heldAmount = 0, costBasis = 100 \<rparr>)]"
proof -
  let ?four = "\<lparr> heldAmount = 4, costBasis = 100 \<rparr>"
  let ?one = "\<lparr> heldAmount = 1, costBasis = 100 \<rparr>"
  let ?s = "mkTx SELL 1 None (Some 120)"
  let ?o = "mkTx TRANSFER_OUT 1 None None"
  have "replayStep [(''BTC'', ?four)] ?s =
          Inr (AList.update (tokenSymbol ?s)
                 \<lparr> heldAmount = heldAmount ?four - amount ?s,
                   costBasis = costBasis ?four * (1 - amount ?s / heldAmount ?four) \<rparr>
                 [(''BTC'', ?four)])"
    by (rule outflow_cost_basis [THEN conjunct1, rule_format])
       (simp_all add: lookupHolding_def mkTx_def)
  moreover
  have "replayStep [(''BTC'', ?one)] ?o =
          Inr (AList.update (tokenSymbol ?o)
                 \<lparr> heldAmount = heldAmount ?one - amount ?o, costBasis = costBasis ?one \<rparr>
                 [(''BTC'', ?one)])"
    by (rule outflow_cost_basis [THEN conjunct2, rule_format])
       (simp_all add: lookupHolding_def mkTx_def)
  ultimately show ?thesis
    by (simp add: mkTx_def)
qed

text \<open>
  The claim of C5 as the specification words it fails for an outflow that empties the
  position: after a BUY of 1 for 100, a SELL of 1 leaves the amount 0 and the cost
  basis 100, not 100 * (1 - 1 / 1).
\<close>

theorem outflow_to_zero_counterexample:
  "replayLoop [] boughtOne = Inr [(''BTC'', \<lparr> heldAmount = 1, costBasis = 100 \<rparr>)] \<and>
   replayLoop [] soldOut = Inr [(''BTC'', \<lparr> heldAmount = 0, costBasis = 100 \<rparr>)] \<and>
   (100 :: real) \<noteq> 100 * (1 - 1 / 1)"
  by (simp add: boughtOne_def soldOut_def replayStep_def positionStep_def outflow_def
      lookupHolding_def mkTx_def js_or_def Let_def)

lemma sumHoldings_acc:
  "sumHoldings g d acc es = acc + sum_list (map (contribution g d) es)"
  by (induction es arbitrary: acc) simp_all

text \<open>
  C6. A price lookup that rejects or resolves to \<open>null\<close> for one symbol held in a
  positive amount does not abort the valuation: that symbol contributes exactly its
  reconstructed cost basis, and the other symbols are summed as without it.
\<close>

theorem price_miss_falls_back_to_cost_basis:
  assumes "0 < heldAmount h"
    and "getHistoricalPrice symbol targetDate = Inr None \<or>
         (\<exists>err. getHistoricalPrice symbol targetDate = Inl err)"
  shows "contribution getHistoricalPrice targetDate (symbol, h) = costBasis h \<and>
         sumHoldings getHistoricalPrice targetDate 0 (before @ (symbol, h) # after) =
           sumHoldings getHistoricalPrice targetDate 0 (before @ after) + costBasis h \<and>
         (findMany userId targetDate = Inr transactions \<and>
          replayLoop [] transactions = Inr (before @ (symbol, h) # after) \<longrightarrow>
            estimatePortfolioValueAtDate findMany getHistoricalPrice userId targetDate =
              Inr (sumHoldings getHistoricalPrice targetDate 0 (before @ after) + costBasis h))"
proof -
  have c: "contribution getHistoricalPrice targetDate (symbol, h) = costBasis h"
    using assms by (auto simp add: contribution_def)
  have s: "sumHoldings getHistoricalPrice targetDate 0 (before @ (symbol, h) # after) =
             sumHoldings getHistoricalPrice targetDate 0 (before @ after) + costBasis h"
    by (simp add: sumHoldings_acc c)
  show ?thesis
    by (simp add: c s estimatePortfolioValueAtDate_def)
qed

text \<open>
  Scenario D with a second symbol: BTC held with cost basis 5000 and a rejecting
  lookup, 2 ETH priced 2000 each.
\<close>

theorem price_miss_witness:
  "estimatePortfolioValueAtDate twoSymbols ethOnly ''u1'' 0 = Inr 9000"
proof -
  let ?btc = "\<lparr> heldAmount = 1, costBasis = 5000 \<rparr>"
  let ?eth = "\<lparr> heldAmount = 2, costBasis = 3000 \<rparr>"
  have "estimatePortfolioValueAtDate twoSymbols ethOnly ''u1'' 0 =
          Inr (sumHoldings ethOnly 0 0 ([] @ [(''ETH'', ?eth)]) + costBasis ?btc)"
    by (rule price_miss_falls_back_to_cost_basis
          [where symbol = "''BTC''" and transactions = "[mkTx BUY 1 None (Some 5000),
             (mkTx BUY 2 None (Some 3000))\<lparr> tokenSymbol := ''ETH'' \<rparr>]",
           THEN conjunct2, THEN conjunct2, rule_format])
       (simp_all add: ethOnly_def twoSymbols_def replayStep_def positionStep_def
          lookupHolding_def mkTx_def js_or_def)
  then show ?thesis
    by (simp add: contribution_def ethOnly_def)
qed

section \<open>Aggregated report\<close>

text \<open>
  When any of the five computations throws and the summary computed again in the
  \<open>catch\<close> block succeeds, the report is returned with that summary and with the four
  other sections in their empty form.
\<close>

lemma aggregator_fallback:
  assumes "isl summary1 \<or> isl timeBased \<or> isl advanced \<or> isl risk \<or> isl benchmarks"
    and "summary2 = Inr s"
  shows "getEnhancedPortfolioMetrics summary1 timeBased advanced risk benchmarks summary2 =
           Inr \<lparr> summary = s, timeBasedPerformance = [],
                 advancedMetrics = emptyAdvancedMetrics,
                 benchmarkComparisons = [], riskMetrics = emptyRiskMetrics \<rparr>"
  using assms by (auto simp add: getEnhancedPortfolioMetrics_def split: sum.splits)

text \<open>
  C7. The claim is that the report is returned, never thrown, whenever a computation
  throws. The code does not do that when the summary itself cannot be computed: with
  the database down the summary and the time-based performance reject, the \<open>catch\<close>
  block asks for the summary again with no handler of its own, and that second
  rejection reaches the caller.
\<close>

theorem aggregator_rethrows_summary_failure:
  "(getEnhancedPortfolioMetrics (Inl QueryFailed) (Inl QueryFailed)
       (Inr emptyAdvancedMetrics) (Inr emptyRiskMetrics) (Inr []) (Inl QueryFailed)
     :: fault + (unit, unit, unit) EnhancedPortfolioMetrics) = Inl QueryFailed"
  by (simp add: getEnhancedPortfolioMetrics_def)

section \<open>Risk metrics\<close>

lemma var95Index_div: "var95Index n = n div 20"
proof -
  have "real n * 0.05 = real n / real 20" by simp
  then show ?thesis unfolding var95Index_def
    by (simp only: floor_divide_of_nat_eq nat_int)
qed

lemma var99Index_div: "var99Index n = n div 100"
proof -
  have "real n * 0.01 = real n / real 100" by simp
  then show ?thesis unfolding var99Index_def
    by (simp only: floor_divide_of_nat_eq nat_int)
qed

lemma var_indices_in_range:
  assumes "0 < n"
  shows "var99Index n \<le> var95Index n" and "var95Index n < n"
proof -
  have "n div 100 = (n div 20) div 5"
    by (simp add: div_mult2_eq)
  also have "\<dots> \<le> n div 20"
    by (rule div_le_dividend)
  finally show "var99Index n \<le> var95Index n"
    by (simp add: var95Index_div var99Index_div)
  show "var95Index n < n"
    using assms by (simp add: var95Index_div)
qed

lemma valueAtRisk95_eq:
  assumes "dailyReturns \<noteq> []"
  shows "valueAtRisk95 (riskMetricsOf dailyReturns) =
           js_or_null (Some (sort (map return' dailyReturns) ! var95Index (length dailyReturns)))"
  using assms var_indices_in_range(2) [of "length dailyReturns"]
  by (simp add: riskMetricsOf_def Let_def elemAt_def)

lemma valueAtRisk99_eq:
  assumes "dailyReturns \<noteq> []"
  shows "valueAtRisk99 (riskMetricsOf dailyReturns) =
           js_or_null (Some (sort (map return' dailyReturns) ! var99Index (length dailyReturns)))"
  using assms var_indices_in_range [of "length dailyReturns"]
  by (simp add: riskMetricsOf_def Let_def elemAt_def)

text \<open>
  C10. On a non-empty series, a percentile return that is exactly 0 is reported as
  \<open>null\<close>: \<open>returns[i] || null\<close> cannot tell a computed zero from a missing value.
\<close>

theorem zero_value_at_risk_is_null:
  assumes "dailyReturns \<noteq> []"
  shows "(sort (map return' dailyReturns) ! var95Index (length dailyReturns) = 0 \<longrightarrow>
            valueAtRisk95 (riskMetricsOf dailyReturns) = None) \<and>
         (sort (map return' dailyReturns) ! var99Index (length dailyReturns) = 0 \<longrightarrow>
            valueAtRisk99 (riskMetricsOf dailyReturns) = None)"
  by (simp add: valueAtRisk95_eq [OF assms] valueAtRisk99_eq [OF assms] js_or_null_def)

theorem zero_value_at_risk_witness:
  "valueAtRisk95 (riskMetricsOf zeroAtTail) = None \<and>
   valueAtRisk99 (riskMetricsOf zeroAtTail) = None"
proof -
  have ne: "zeroAtTail \<noteq> []"
    by (simp add: zeroAtTail_def)
  have s: "sort (map return' zeroAtTail) = [0, 2, 5]"
    by (simp add: zeroAtTail_def point_def)
  have i: "var95Index (length zeroAtTail) = 0" "var99Index (length zeroAtTail) = 0"
    by (simp_all add: var95Index_div var99Index_div zeroAtTail_def)
  have "valueAtRisk95 (riskMetricsOf zeroAtTail) = None"
    by (rule zero_value_at_risk_is_null [OF ne, THEN conjunct1, rule_format])
       (simp add: s i)
  moreover have "valueAtRisk99 (riskMetricsOf zeroAtTail) = None"
    by (rule zero_value_at_risk_is_null [OF ne, THEN conjunct2, rule_format])
       (simp add: s i)
  ultimately show ?thesis by simp
qed

lemma nullAsZero_js_or_null: "nullAsZero (js_or_null (Some v)) = v"
  by (simp add: nullAsZero_def js_or_null_def)

text \<open>
  C8. For every series the reported 99% value at risk is at most the reported 95% value
  at risk: whenever both are numbers, and also when a \<open>null\<close> is read as the zero it
  stands for, as the comparison of JavaScript does.
\<close>

theorem value_at_risk_ordering:
  "nullAsZero (valueAtRisk99 (riskMetricsOf dailyReturns))
     \<le> nullAsZero (valueAtRisk95 (riskMetricsOf dailyReturns)) \<and>
   (\<forall>v99 v95. valueAtRisk99 (riskMetricsOf dailyReturns) = Some v99 \<and>
               valueAtRisk95 (riskMetricsOf dailyReturns) = Some v95 \<longrightarrow> v99 \<le> v95)"
proof -
  have le: "nullAsZero (valueAtRisk99 (riskMetricsOf dailyReturns))
              \<le> nullAsZero (valueAtRisk95 (riskMetricsOf dailyReturns))"
  proof (cases "dailyReturns = []")
    case True
    then show ?thesis
      by (simp add: riskMetricsOf_def emptyRiskMetrics_def nullAsZero_def)
  next
    case False
    let ?rs = "sort (map return' dailyReturns)"
    let ?n = "length dailyReturns"
    have n: "0 < ?n" using False by simp
    have "?rs ! var99Index ?n \<le> ?rs ! var95Index ?n"
      using var_indices_in_range [OF n]
      by (intro sorted_nth_mono) simp_all
    then show ?thesis
      by (simp add: valueAtRisk95_eq [OF False] valueAtRisk99_eq [OF False]
          nullAsZero_js_or_null)
  qed
  then show ?thesis
    by (auto simp add: nullAsZero_def)
qed

theorem value_at_risk_ordering_witness:
  "valueAtRisk99 (riskMetricsOf twentyDays) = Some (- 5) \<and>
   valueAtRisk95 (riskMetricsOf twentyDays) = Some (- 4) \<and> (- 5 :: real) \<le> - 4"
proof -
  have m: "map return' twentyDays = map (\<lambda>i. real i - 5) [0..<20]"
    by (simp add: twentyDays_def point_def comp_def)
  have "sorted (map (\<lambda>i. real i - 5) [0..<20])"
    by (simp add: sorted_map sorted_wrt_iff_nth_less)
  then have s: "sort (map return' twentyDays) = map (\<lambda>i. real i - 5) [0..<20]"
    unfolding m by (rule sorted_sort_id)
  have i: "var95Index (length twentyDays) = 1" "var99Index (length twentyDays) = 0"
    by (simp_all add: var95Index_div var99Index_div twentyDays_def)
  have ne: "twentyDays \<noteq> []"
    by (simp add: twentyDays_def upt_rec)
  have a: "valueAtRisk99 (riskMetricsOf twentyDays) = Some (- 5)"
    by (simp add: valueAtRisk99_eq [OF ne] s i js_or_null_def)
  have b: "valueAtRisk95 (riskMetricsOf twentyDays) = Some (- 4)"
    by (simp add: valueAtRisk95_eq [OF ne] s i js_or_null_def)
  have "(- 5 :: real) \<le> - 4"
    by (rule value_at_risk_ordering [of twentyDays, THEN conjunct2, rule_format])
       (simp add: a b)
  with a b show ?thesis by simp
qed

section \<open>Maximum drawdown\<close>

lemma drawdownLoop_positive:
  assumes "0 \<le> m"
  shows "(0 < fst (drawdownLoop ds (peak, pd) (m, per))) =
           (0 < m \<or> declineAfter peak (map value' ds))"
  using assms
proof (induction ds arbitrary: peak pd m per)
  case Nil
  then show ?case by simp
next
  case (Cons d ds)
  define pk where "pk = (if value' d > peak then value' d else peak)"
  define pkd where "pkd = (if value' d > peak then date d else pd)"
  define dd where "dd = (if pk > 0 then ((pk - value' d) / pk) * 100 else 0)"
  have pk_max: "pk = max peak (value' d)"
    by (simp add: pk_def max_def)
  have dd_pos: "(0 < dd) = (0 < pk \<and> value' d < pk)"
    by (simp add: dd_def zero_less_divide_iff)
  have dd_nonneg: "0 \<le> dd"
    using pk_max by (simp add: dd_def)
  have step: "drawdownLoop (d # ds) (peak, pd) (m, per) =
                (if dd > m then drawdownLoop ds (pk, pkd) (dd, Some (pkd, date d))
                 else drawdownLoop ds (pk, pkd) (m, per))"
    by (simp add: Let_def pk_def pkd_def dd_def)
  show ?case
  proof (cases "dd > m")
    case True
    with Cons.prems have "0 < dd" by simp
    with True show ?thesis
      using Cons.IH [OF dd_nonneg, of pk pkd "Some (pkd, date d)"] dd_pos
      by (simp add: step pk_max del: drawdownLoop.simps)
  next
    case False
    then have "0 < dd \<Longrightarrow> 0 < m" by simp
    with False show ?thesis
      using Cons.IH [OF Cons.prems, of pk pkd per] dd_pos
      by (auto simp add: step pk_max simp del: drawdownLoop.simps)
  qed
qed

lemma max_above: "(0 < max p v \<and> c < max p v) = ((0 < p \<and> c < p) \<or> (0 < v \<and> c < (v::real)))"
  by (auto simp add: max_def)

lemma ex_le_Suc: "(\<exists>j\<le>Suc k. P j) = (P 0 \<or> (\<exists>j\<le>k. P (Suc j)))"
  by (metis Suc_le_mono le0 not0_implies_Suc)

lemma declineAfter_iff:
  "declineAfter peak vs =
     (\<exists>i<length vs. (0 < peak \<and> vs ! i < peak) \<or> (\<exists>j\<le>i. 0 < vs ! j \<and> vs ! i < vs ! j))"
proof (induction vs arbitrary: peak)
  case Nil
  then show ?case by simp
next
  case (Cons v vs)
  have "declineAfter peak (v # vs) =
          ((0 < peak \<and> v < peak) \<or>
           (\<exists>i<length vs. (0 < peak \<and> vs ! i < peak) \<or> (0 < v \<and> vs ! i < v) \<or>
                (\<exists>j\<le>i. 0 < vs ! j \<and> vs ! i < vs ! j)))"
    by (simp add: Cons.IH max_above disj_assoc)
  also have "\<dots> = (\<exists>i<length (v # vs). (0 < peak \<and> (v # vs) ! i < peak) \<or>
                (\<exists>j\<le>i. 0 < (v # vs) ! j \<and> (v # vs) ! i < (v # vs) ! j))"
    by (simp add: Ex_less_Suc2 ex_le_Suc)
  finally show ?case .
qed

text \<open>
  C9 (as the code has it). The reported maximum drawdown is \<open>null\<close> exactly when no
  point of the series lies below a positive value that came at or before it (no decline
  from a positive running peak), and otherwise it is a positive number: it is never
  negative. A decline from a running peak that is zero or negative is not counted.
\<close>

theorem max_drawdown_null_or_positive:
  "(fst (calculateMaxDrawdown dailyReturns) = None \<longleftrightarrow>
      \<not> (\<exists>i<length dailyReturns. \<exists>j\<le>i.
            0 < value' (dailyReturns ! j) \<and>
            value' (dailyReturns ! i) < value' (dailyReturns ! j))) \<and>
   (\<forall>d. fst (calculateMaxDrawdown dailyReturns) = Some d \<longrightarrow> 0 < d)"
proof (cases dailyReturns)
  case Nil
  then show ?thesis by (simp add: calculateMaxDrawdown_def)
next
  case (Cons first rest)
  let ?r = "drawdownLoop dailyReturns (value' first, date first) (0, None)"
  let ?vs = "map value' dailyReturns"
  have "(0 < fst ?r) = declineAfter (value' first) ?vs"
    by (simp add: drawdownLoop_positive del: drawdownLoop.simps)
  also have "\<dots> = (\<exists>i<length ?vs. (0 < ?vs ! 0 \<and> ?vs ! i < ?vs ! 0) \<or>
                (\<exists>j\<le>i. 0 < ?vs ! j \<and> ?vs ! i < ?vs ! j))"
    using Cons by (simp add: declineAfter_iff del: declineAfter.simps)
  also have "\<dots> = (\<exists>i<length ?vs. \<exists>j\<le>i. 0 < ?vs ! j \<and> ?vs ! i < ?vs ! j)"
    by blast
  also have "\<dots> = (\<exists>i<length dailyReturns. \<exists>j\<le>i.
            0 < value' (dailyReturns ! j) \<and>
            value' (dailyReturns ! i) < value' (dailyReturns ! j))"
    by (intro ex_cong1 conj_cong refl) auto
  finally have pos: "(0 < fst ?r) = (\<exists>i<length dailyReturns. \<exists>j\<le>i.
            0 < value' (dailyReturns ! j) \<and>
            value' (dailyReturns ! i) < value' (dailyReturns ! j))" .
  have res: "fst (calculateMaxDrawdown dailyReturns) =
               (if 0 < fst ?r then Some (fst ?r) else None)"
    using Cons by (simp add: calculateMaxDrawdown_def Let_def del: drawdownLoop.simps)
  show ?thesis
    unfolding res using pos by (auto simp del: drawdownLoop.simps)
qed

text \<open>Scenario C: the values 100, 110, 99, 105 give a drawdown of 10 percent.\<close>

theorem max_drawdown_witness:
  "fst (calculateMaxDrawdown scenarioC) = Some 10 \<and> (0::real) < 10 \<and>
   fst (calculateMaxDrawdown scenarioC) \<noteq> None"
proof -
  have v: "fst (calculateMaxDrawdown scenarioC) = Some 10"
    by (simp add: calculateMaxDrawdown_def scenarioC_def point_def Let_def)
  have "(0::real) < 10"
    by (rule max_drawdown_null_or_positive [THEN conjunct2, rule_format, OF v])
  moreover
  have "2 < length scenarioC \<and> (1::nat) \<le> 2 \<and> 0 < value' (scenarioC ! 1) \<and>
        value' (scenarioC ! 2) < value' (scenarioC ! 1)"
    by (simp add: scenarioC_def point_def)
  then have "\<exists>i<length scenarioC. \<exists>j\<le>i.
               0 < value' (scenarioC ! j) \<and> value' (scenarioC ! i) < value' (scenarioC ! j)"
    by blast
  with max_drawdown_null_or_positive [of scenarioC, THEN conjunct1]
  have "fst (calculateMaxDrawdown scenarioC) \<noteq> None"
    by blast
  ultimately show ?thesis
    using v by simp
qed

text \<open>
  The claim of C9 as the specification words it fails on the values 0, -5: the value
  declines from the running peak 0 and the result is \<open>null\<close>, because the drawdown is
  only computed \<open>peak > 0\<close>.
\<close>

theorem decline_below_zero_counterexample:
  "value' (declineBelowZero ! 1) < value' (declineBelowZero ! 0) \<and>
   fst (calculateMaxDrawdown declineBelowZero) = None"
  by (simp add: calculateMaxDrawdown_def declineBelowZero_def point_def Let_def)

section \<open>Daily return series\<close>

lemma dailyLoop_shape:
  assumes "dailyLoop valueAt start idx prev acc = Inr out"
  shows "\<exists>new. out = acc @ new \<and> length new \<le> length idx \<and>
           (\<forall>p\<in>set new. \<exists>i\<in>set idx. date p = start + int i * msPerDay) \<and>
           (prev = None \<longrightarrow> new \<noteq> [] \<longrightarrow> return' (hd new) = 0)"
  using assms
proof (induction idx arbitrary: prev acc)
  case Nil
  then show ?case by simp
next
  case (Cons i rest)
  let ?d = "start + int i * msPerDay"
  show ?case
  proof (cases "valueAt ?d")
    case (Inr v)
    define r where "r = (case prev of Some p \<Rightarrow> if p > 0 then ((v - p) / p) * 100 else 0
                         | None \<Rightarrow> 0)"
    let ?pt = "\<lparr> date = ?d, value' = v, return' = r \<rparr>"
    from Cons.prems Inr
    have "dailyLoop valueAt start rest (Some v) (acc @ [?pt]) = Inr out"
      by (simp add: Let_def r_def)
    from Cons.IH [OF this] obtain new where
      n: "out = (acc @ [?pt]) @ new" "length new \<le> length rest"
         "\<forall>p\<in>set new. \<exists>i\<in>set rest. date p = start + int i * msPerDay"
      by blast
    have "prev = None \<Longrightarrow> r = 0"
      by (simp add: r_def)
    with n show ?thesis
      by (intro exI [of _ "?pt # new"]) auto
  next
    case (Inl e)
    with Cons.prems have "dailyLoop valueAt start rest prev acc = Inr out"
      by (cases e) (simp_all add: Let_def)
    from Cons.IH [OF this] obtain new where
      "out = acc @ new" "length new \<le> length rest"
      "\<forall>p\<in>set new. \<exists>i\<in>set rest. date p = start + int i * msPerDay"
      "prev = None \<longrightarrow> new \<noteq> [] \<longrightarrow> return' (hd new) = 0"
      by blast
    then show ?thesis
      by (intro exI [of _ new]) auto
  qed
qed

lemma dailyLoop_exact:
  assumes "dailyLoop valueAt start idx prev acc = Inr out"
  shows "\<exists>new. out = acc @ new \<and>
           map date new =
             map (\<lambda>i. start + int i * msPerDay)
               (filter (\<lambda>i. \<not> isl (valueAt (start + int i * msPerDay))) idx) \<and>
           (\<forall>p\<in>set new. valueAt (date p) = Inr (value' p)) \<and>
           (new \<noteq> [] \<longrightarrow> return' (hd new) = returnAgainst prev (value' (hd new))) \<and>
           (\<forall>k. Suc k < length new \<longrightarrow>
              return' (new ! Suc k) =
                returnAgainst (Some (value' (new ! k))) (value' (new ! Suc k)))"
  using assms
proof (induction idx arbitrary: prev acc)
  case Nil
  then show ?case by simp
next
  case (Cons i rest)
  let ?d = "start + int i * msPerDay"
  show ?case
  proof (cases "valueAt ?d")
    case (Inr v)
    let ?pt = "\<lparr> date = ?d, value' = v, return' = returnAgainst prev v \<rparr>"
    from Cons.prems Inr
    have "dailyLoop valueAt start rest (Some v) (acc @ [?pt]) = Inr out"
      by (simp add: Let_def returnAgainst_def)
    from Cons.IH [OF this] obtain new where
      n: "out = (acc @ [?pt]) @ new"
         "map date new =
            map (\<lambda>i. start + int i * msPerDay)
              (filter (\<lambda>i. \<not> isl (valueAt (start + int i * msPerDay))) rest)"
         "\<forall>p\<in>set new. valueAt (date p) = Inr (value' p)"
         "new \<noteq> [] \<longrightarrow> return' (hd new) = returnAgainst (Some v) (value' (hd new))"
         "\<forall>k. Suc k < length new \<longrightarrow>
              return' (new ! Suc k) =
                returnAgainst (Some (value' (new ! k))) (value' (new ! Suc k))"
      by blast
    have chain: "return' ((?pt # new) ! Suc k) =
                   returnAgainst (Some (value' ((?pt # new) ! k))) (value' ((?pt # new) ! Suc k))"
      if "Suc k < length (?pt # new)" for k
    proof (cases k)
      case 0
      with that have "new \<noteq> []" by auto
      with n(4) 0 show ?thesis
        by (simp add: hd_conv_nth)
    next
      case (Suc k')
      with that n(5) show ?thesis by simp
    qed
    show ?thesis
    proof (intro exI [of _ "?pt # new"] conjI)
      show "out = acc @ ?pt # new" using n(1) by simp
      show "map date (?pt # new) =
              map (\<lambda>i. start + int i * msPerDay)
                (filter (\<lambda>i. \<not> isl (valueAt (start + int i * msPerDay))) (i # rest))"
        using n(2) Inr by simp
      show "\<forall>p\<in>set (?pt # new). valueAt (date p) = Inr (value' p)"
        using n(3) Inr by simp
      show "?pt # new \<noteq> [] \<longrightarrow>
              return' (hd (?pt # new)) = returnAgainst prev (value' (hd (?pt # new)))"
        by simp
      show "\<forall>k. Suc k < length (?pt # new) \<longrightarrow>
              return' ((?pt # new) ! Suc k) =
                returnAgainst (Some (value' ((?pt # new) ! k))) (value' ((?pt # new) ! Suc k))"
        using chain by blast
    qed
  next
    case (Inl e)
    with Cons.prems have "dailyLoop valueAt start rest prev acc = Inr out"
      by (cases e) (simp_all add: Let_def)
    from Cons.IH [OF this] Inl show ?thesis
      by simp
  qed
qed

lemma dailyLoop_returns:
  assumes "\<forall>i\<in>set idx. valueAt (start + int i * msPerDay) \<noteq> Inl NonFinite"
  shows "\<exists>out. dailyLoop valueAt start idx prev acc = Inr out"
  using assms
proof (induction idx arbitrary: prev acc)
  case Nil
  then show ?case by simp
next
  case (Cons i rest)
  let ?d = "start + int i * msPerDay"
  from Cons.prems have ok: "valueAt ?d \<noteq> Inl NonFinite"
    and rest: "\<forall>i\<in>set rest. valueAt (start + int i * msPerDay) \<noteq> Inl NonFinite"
    by simp_all
  show ?case
  proof (cases "valueAt ?d")
    case (Inr v)
    with Cons.IH [OF rest] show ?thesis
      by (simp add: Let_def)
  next
    case (Inl e)
    with ok Cons.IH [OF rest] show ?thesis
      by (cases e) (simp_all add: Let_def)
  qed
qed

lemma window_dates_distinct:
  "distinct (map (\<lambda>i. start + int i * msPerDay) (filter P [0..<days]))"
proof -
  have "inj_on (\<lambda>i. start + int i * msPerDay) (set (filter P [0..<days]))"
    by (rule inj_onI) (simp add: msPerDay_def)
  then show ?thesis
    by (simp add: distinct_map)
qed

lemma dailyLoop_total:
  assumes "\<forall>i\<in>set idx. \<exists>v. valueAt (start + int i * msPerDay) = Inr v"
  shows "\<exists>new. dailyLoop valueAt start idx prev acc = Inr (acc @ new) \<and>
           map date new = map (\<lambda>i. start + int i * msPerDay) idx"
  using assms
proof (induction idx arbitrary: prev acc)
  case Nil
  then show ?case by simp
next
  case (Cons i rest)
  let ?d = "start + int i * msPerDay"
  from Cons.prems obtain v where v: "valueAt ?d = Inr v"
    by auto
  define r where "r = (case prev of Some p \<Rightarrow> if p > 0 then ((v - p) / p) * 100 else 0
                       | None \<Rightarrow> 0)"
  let ?pt = "\<lparr> date = ?d, value' = v, return' = r \<rparr>"
  from Cons.prems have "\<forall>i\<in>set rest. \<exists>v. valueAt (start + int i * msPerDay) = Inr v"
    by simp
  from Cons.IH [OF this, of "Some v" "acc @ [?pt]"] obtain new where
    "dailyLoop valueAt start rest (Some v) (acc @ [?pt]) = Inr ((acc @ [?pt]) @ new)"
    "map date new = map (\<lambda>i. start + int i * msPerDay) rest"
    by blast
  then show ?case
    by (intro exI [of _ "?pt # new"]) (simp add: v Let_def r_def)
qed

lemma dailyLoop_flat:
  assumes "\<forall>d. valueAt d = Inr 0" and "prev = None \<or> prev = Some 0"
  shows "dailyLoop valueAt start idx prev acc =
           Inr (acc @ map (\<lambda>i. point (start + int i * msPerDay) 0 0) idx)"
  using assms(2)
proof (induction idx arbitrary: prev acc)
  case Nil
  then show ?case by simp
next
  case (Cons i rest)
  then show ?case
    using assms(1) by (auto simp add: Let_def point_def)
qed

lemma window_date:
  "i < days \<Longrightarrow> now - int days * msPerDay + int i * msPerDay = now - int (days - i) * msPerDay"
  by (simp add: algebra_simps)

lemma window_filter:
  "map (\<lambda>i. now - int days * msPerDay + int i * msPerDay)
     (filter (\<lambda>i. \<not> isl (valueAt (now - int days * msPerDay + int i * msPerDay))) [0..<days]) =
   map (\<lambda>i. now - int (days - i) * msPerDay)
     (filter (\<lambda>i. \<not> isl (valueAt (now - int (days - i) * msPerDay))) [0..<days])"
proof -
  have "filter (\<lambda>i. \<not> isl (valueAt (now - int days * msPerDay + int i * msPerDay))) [0..<days] =
        filter (\<lambda>i. \<not> isl (valueAt (now - int (days - i) * msPerDay))) [0..<days]"
    by (rule filter_cong) (simp_all add: window_date)
  moreover have "map (\<lambda>i. now - int days * msPerDay + int i * msPerDay)
                   (filter (\<lambda>i. \<not> isl (valueAt (now - int (days - i) * msPerDay))) [0..<days]) =
                 map (\<lambda>i. now - int (days - i) * msPerDay)
                   (filter (\<lambda>i. \<not> isl (valueAt (now - int (days - i) * msPerDay))) [0..<days])"
    by (rule map_cong) (simp_all add: window_date)
  ultimately show ?thesis by simp
qed

text \<open>
  C4 (as the code has it). For every user and window the series has exactly one point
  for each index \<open>i < windowDays\<close> whose valuation returns, dated
  \<open>now - (windowDays - i)\<close> days, in index order, and no point for an index whose
  valuation throws. So the dates are distinct, there are at most \<open>windowDays\<close> points,
  and the window is half-open: it ends one day before the call time. The value of a
  point is the valuation at its date; the first point's return is 0 and every later
  return is taken against the value of the point before it. The series is returned
  whenever no valuation is non-finite, and it has all \<open>windowDays\<close> days when every
  valuation returns.
\<close>

theorem daily_series_window:
  "(\<forall>series. calculateDailyReturns findMany g now userId days = Inr series \<longrightarrow>
       map date series =
         map (\<lambda>i. now - int (days - i) * msPerDay)
           (filter (\<lambda>i. \<not> isl (estimatePortfolioValueAtDate findMany g userId
                                    (now - int (days - i) * msPerDay))) [0..<days]) \<and>
       distinct (map date series) \<and>
       length series \<le> days \<and>
       (\<forall>p\<in>set series. \<exists>i<days. date p = now - int (days - i) * msPerDay) \<and>
       (\<forall>p\<in>set series.
          estimatePortfolioValueAtDate findMany g userId (date p) = Inr (value' p)) \<and>
       (series \<noteq> [] \<longrightarrow> return' (hd series) = 0) \<and>
       (\<forall>k. Suc k < length series \<longrightarrow>
          return' (series ! Suc k) =
            returnAgainst (Some (value' (series ! k))) (value' (series ! Suc k)))) \<and>
   ((\<forall>i<days. estimatePortfolioValueAtDate findMany g userId
                 (now - int (days - i) * msPerDay) \<noteq> Inl NonFinite) \<longrightarrow>
       (\<exists>series. calculateDailyReturns findMany g now userId days = Inr series)) \<and>
   ((\<forall>i<days. \<exists>v. estimatePortfolioValueAtDate findMany g userId
                      (now - int (days - i) * msPerDay) = Inr v) \<longrightarrow>
       (\<exists>series. calculateDailyReturns findMany g now userId days = Inr series \<and>
          map date series = map (\<lambda>i. now - int (days - i) * msPerDay) [0..<days]))"
proof (intro conjI allI impI)
  let ?est = "estimatePortfolioValueAtDate findMany g userId"
  let ?start = "now - int days * msPerDay"
  fix series
  assume "calculateDailyReturns findMany g now userId days = Inr series"
  then have loop: "dailyLoop ?est ?start [0..<days] None [] = Inr series"
    by (simp add: calculateDailyReturns_def)
  from dailyLoop_exact [OF loop] have
    d: "map date series =
          map (\<lambda>i. ?start + int i * msPerDay)
            (filter (\<lambda>i. \<not> isl (?est (?start + int i * msPerDay))) [0..<days])"
    and v: "\<forall>p\<in>set series. ?est (date p) = Inr (value' p)"
    and h: "series \<noteq> [] \<longrightarrow> return' (hd series) = returnAgainst None (value' (hd series))"
    and c: "\<forall>k. Suc k < length series \<longrightarrow>
              return' (series ! Suc k) =
                returnAgainst (Some (value' (series ! k))) (value' (series ! Suc k))"
    by auto
  show "map date series =
         map (\<lambda>i. now - int (days - i) * msPerDay)
           (filter (\<lambda>i. \<not> isl (?est (now - int (days - i) * msPerDay))) [0..<days])"
    using d by (simp only: window_filter)
  show "distinct (map date series)"
    unfolding d by (rule window_dates_distinct)
  from dailyLoop_shape [OF loop] have
    s: "length series \<le> days"
       "\<forall>p\<in>set series. \<exists>i\<in>set [0..<days]. date p = ?start + int i * msPerDay"
    by auto
  show "length series \<le> days" by (rule s)
  show "\<forall>p\<in>set series. \<exists>i<days. date p = now - int (days - i) * msPerDay"
  proof
    fix p
    assume "p \<in> set series"
    with s(2) obtain i where "i < days" "date p = ?start + int i * msPerDay"
      by auto
    then show "\<exists>i<days. date p = now - int (days - i) * msPerDay"
      by (auto simp only: window_date)
  qed
  show "\<forall>p\<in>set series. ?est (date p) = Inr (value' p)" by (rule v)
  show "return' (hd series) = 0" if "series \<noteq> []"
    using h that by (simp add: returnAgainst_def)
  show "return' (series ! Suc k) =
          returnAgainst (Some (value' (series ! k))) (value' (series ! Suc k))"
    if "Suc k < length series" for k
    using c that by simp
next
  let ?est = "estimatePortfolioValueAtDate findMany g userId"
  let ?start = "now - int days * msPerDay"
  assume "\<forall>i<days. ?est (now - int (days - i) * msPerDay) \<noteq> Inl NonFinite"
  then have "\<forall>i\<in>set [0..<days]. ?est (?start + int i * msPerDay) \<noteq> Inl NonFinite"
    by (simp add: window_date)
  from dailyLoop_returns [OF this, of None "[]"]
  show "\<exists>series. calculateDailyReturns findMany g now userId days = Inr series"
    by (simp add: calculateDailyReturns_def)
next
  let ?start = "now - int days * msPerDay"
  assume a: "\<forall>i<days. \<exists>v. estimatePortfolioValueAtDate findMany g userId
                      (now - int (days - i) * msPerDay) = Inr v"
  then have "\<forall>i\<in>set [0..<days]. \<exists>v. estimatePortfolioValueAtDate findMany g userId
                      (?start + int i * msPerDay) = Inr v"
    by (simp add: window_date)
  from dailyLoop_total [OF this, of None "[]"] obtain series where
    "dailyLoop (estimatePortfolioValueAtDate findMany g userId) ?start [0..<days] None [] =
       Inr series"
    "map date series = map (\<lambda>i. ?start + int i * msPerDay) [0..<days]"
    by auto
  moreover have "map (\<lambda>i. ?start + int i * msPerDay) [0..<days] =
                   map (\<lambda>i. now - int (days - i) * msPerDay) [0..<days]"
    by (rule map_cong) (simp_all add: window_date)
  ultimately show "\<exists>series. calculateDailyReturns findMany g now userId days = Inr series \<and>
          map date series = map (\<lambda>i. now - int (days - i) * msPerDay) [0..<days]"
    by (simp add: calculateDailyReturns_def)
qed

lemma estimate_no_transactions:
  "findMany userId d = Inr [] \<Longrightarrow> estimatePortfolioValueAtDate findMany g userId d = Inr 0"
  by (simp add: estimatePortfolioValueAtDate_def)

lemma daily_returns_no_transactions:
  assumes "\<forall>d. findMany userId d = Inr []"
  shows "calculateDailyReturns findMany g now userId days =
           Inr (map (\<lambda>i. point (now - int days * msPerDay + int i * msPerDay) 0 0) [0..<days])"
proof -
  have "\<forall>d. estimatePortfolioValueAtDate findMany g userId d = Inr 0"
    using assms by (simp add: estimate_no_transactions)
  from dailyLoop_flat [OF this, of None] show ?thesis
    by (simp add: calculateDailyReturns_def)
qed

text \<open>
  The claim of C4 as the specification words it fails for a window of one day called
  at time 0: the series has one point, not two, and its date is one day before the call.
\<close>

theorem daily_series_window_counterexample:
  "calculateDailyReturns emptyLedger noPrices 0 ''u1'' 1 = Inr [point (- 86400000) 0 0] \<and>
   length [point (- 86400000) 0 0] \<noteq> 1 + 1 \<and>
   date (last [point (- 86400000) 0 0]) \<noteq> 0"
  by (simp add: daily_returns_no_transactions emptyLedger_def msPerDay_def point_def)

lemma estimate_flaky:
  "estimatePortfolioValueAtDate flakyLedger g u d =
     (if d = - 86400000 then Inl QueryFailed else Inr 0)"
  by (simp add: estimatePortfolioValueAtDate_def flakyLedger_def)

text \<open>
  A window of three days called at time 0 whose last day cannot be valued, and a
  window of two days on an empty ledger.
\<close>

theorem daily_series_window_witness:
  "calculateDailyReturns flakyLedger noPrices 0 ''u1'' 3 =
     Inr [point (- 259200000) 0 0, point (- 172800000) 0 0] \<and>
   map date [point (- 259200000) 0 0, point (- 172800000) 0 0] =
     map (\<lambda>i. 0 - int (3 - i) * msPerDay) [0, 1] \<and>
   (\<exists>series. calculateDailyReturns emptyLedger noPrices 0 ''u1'' 2 = Inr series \<and>
      map date series = map (\<lambda>i. 0 - int (2 - i) * msPerDay) [0..<2])"
proof -
  let ?s = "[point (- 259200000) 0 0, point (- 172800000) 0 0]"
  let ?est = "estimatePortfolioValueAtDate flakyLedger noPrices ''u1''"
  have u: "[0..<3] = [0, 1, 2]"
    by (simp add: upt_rec)
  have nf: "\<forall>i<3. ?est (0 - int (3 - i) * msPerDay) \<noteq> Inl NonFinite"
    by (simp add: estimate_flaky)
  from daily_series_window [of flakyLedger noPrices 0 "''u1''" 3,
         THEN conjunct2, THEN conjunct1, THEN mp, OF nf]
  obtain series where e: "calculateDailyReturns flakyLedger noPrices 0 ''u1'' 3 = Inr series"
    by blast
  from daily_series_window [of flakyLedger noPrices 0 "''u1''" 3,
         THEN conjunct1, THEN spec, THEN mp, OF e]
  have d: "map date series =
             map (\<lambda>i. 0 - int (3 - i) * msPerDay)
               (filter (\<lambda>i. \<not> isl (?est (0 - int (3 - i) * msPerDay))) [0..<3])"
    and v: "\<forall>p\<in>set series. ?est (date p) = Inr (value' p)"
    and h: "series \<noteq> [] \<longrightarrow> return' (hd series) = 0"
    and c: "\<forall>k. Suc k < length series \<longrightarrow>
              return' (series ! Suc k) =
                returnAgainst (Some (value' (series ! k))) (value' (series ! Suc k))"
    by blast+
  have f: "filter (\<lambda>i. \<not> isl (?est (0 - int (3 - i) * msPerDay))) [0..<3] = [0, 1]"
    by (simp add: u estimate_flaky msPerDay_def)
  have direct: "calculateDailyReturns flakyLedger noPrices 0 ''u1'' 3 = Inr ?s"
    by (simp add: calculateDailyReturns_def u estimate_flaky msPerDay_def point_def Let_def)
  with e have "series = ?s" by simp
  with d f have "map date ?s = map (\<lambda>i. 0 - int (3 - i) * msPerDay) [0, 1]"
    by simp
  moreover
  have "\<exists>series. calculateDailyReturns emptyLedger noPrices 0 ''u1'' 2 = Inr series \<and>
          map date series = map (\<lambda>i. 0 - int (2 - i) * msPerDay) [0..<2]"
    by (rule daily_series_window [THEN conjunct2, THEN conjunct2, THEN mp])
       (simp add: estimate_no_transactions emptyLedger_def)
  ultimately show ?thesis
    using direct by simp
qed

section \<open>Metrics of a user without transactions\<close>

lemma map_const_replicate:
  "\<forall>x\<in>set xs. f x = c \<Longrightarrow> map f xs = replicate (length xs) c"
  by (induction xs) simp_all

lemma reduceSum_zeros: "reduceSum (replicate n 0) = 0"
  unfolding reduceSum_def by (induction n) simp_all

lemma indexOf_replicate: "0 < n \<Longrightarrow> indexOf (replicate n x) x = Some 0"
  by (cases n) simp_all

lemma drawdownLoop_flat:
  "\<forall>p\<in>set ds. value' p = 0 \<Longrightarrow> drawdownLoop ds (0, pd) (0, None) = (0, None)"
  by (induction ds arbitrary: pd) (simp_all add: Let_def)

lemma calculateMaxDrawdown_flat:
  assumes "\<forall>p\<in>set ds. value' p = 0"
  shows "calculateMaxDrawdown ds = (None, None)"
proof (cases ds)
  case Nil
  then show ?thesis by (simp add: calculateMaxDrawdown_def)
next
  case (Cons first rest)
  with assms have "value' first = 0" by simp
  with Cons drawdownLoop_flat [OF assms, of "date first"] show ?thesis
    by (simp add: calculateMaxDrawdown_def del: drawdownLoop.simps)
qed

lemma advancedMetricsOf_flat:
  assumes "ds \<noteq> []" and "\<forall>p\<in>set ds. value' p = 0 \<and> return' p = 0"
  shows "advancedMetricsOf ds =
           \<lparr> sharpeRatio = None, volatility = Some 0, maxDrawdown = None,
             maxDrawdownPeriod = None, averageReturn = 0, winRate = 0,
             bestDay = Some (date (hd ds), 0), worstDay = Some (date (hd ds), 0),
             totalTradingDays = length ds \<rparr>"
proof -
  let ?n = "length ds"
  have n: "0 < ?n" using assms(1) by simp
  have r: "map return' ds = replicate ?n 0"
    using assms(2) by (simp add: map_const_replicate)
  have sq: "map (\<lambda>r. (r - 0)\<^sup>2) (replicate ?n (0::real)) = replicate ?n 0"
    by simp
  have mx: "Max (set (replicate ?n (0::real))) = 0" "Min (set (replicate ?n (0::real))) = 0"
    using n by simp_all
  have dd: "calculateMaxDrawdown ds = (None, None)"
    using assms(2) by (simp add: calculateMaxDrawdown_flat)
  have h: "ds ! 0 = hd ds"
    using assms(1) by (simp add: hd_conv_nth)
  show ?thesis
    using n assms(1)
    by (simp add: advancedMetricsOf_def Let_def r sq mx dd h reduceSum_zeros
        indexOf_replicate del: replicate.simps)
qed

lemma riskMetricsOf_flat:
  assumes "ds \<noteq> []" and "\<forall>p\<in>set ds. return' p = 0"
  shows "riskMetricsOf ds =
           \<lparr> valueAtRisk95 = None, valueAtRisk99 = None, conditionalValueAtRisk = Some 0,
             downsideDeviation = None, sortinoRatio = None \<rparr>"
proof -
  let ?n = "length ds"
  have n: "0 < ?n" using assms(1) by simp
  have r: "map return' ds = replicate ?n 0"
    using assms(2) by (simp add: map_const_replicate)
  have s: "sort (replicate ?n (0::real)) = replicate ?n 0"
    by (rule sorted_sort_id) (simp add: sorted_replicate)
  have i: "var95Index ?n < ?n" "var99Index ?n < ?n"
    using var_indices_in_range [OF n] by simp_all
  have t: "take (Suc (var95Index ?n)) (replicate ?n (0::real)) =
             replicate (Suc (var95Index ?n)) 0"
    using i by (simp add: min_def)
  show ?thesis
    using n assms(1) i
    by (simp add: riskMetricsOf_def Let_def r s t elemAt_def js_or_null_def reduceSum_zeros
        del: replicate.simps)
qed

lemma advancedMetricsOf_empty_iff:
  "(advancedMetricsOf ds = emptyAdvancedMetrics) = (ds = [])"
proof (cases "ds = []")
  case True
  then show ?thesis by (simp add: advancedMetricsOf_def)
next
  case False
  then have "volatility (advancedMetricsOf ds) \<noteq> None"
    by (simp add: advancedMetricsOf_def Let_def)
  moreover have "volatility emptyAdvancedMetrics = None"
    by (simp add: emptyAdvancedMetrics_def)
  ultimately show ?thesis
    using False by auto
qed

lemma riskMetricsOf_empty_iff:
  "(riskMetricsOf ds = emptyRiskMetrics) = (ds = [])"
proof (cases "ds = []")
  case True
  then show ?thesis by (simp add: riskMetricsOf_def)
next
  case False
  have "length (sort (map return' ds)) = length ds"
    by simp
  with False have "sort (map return' ds) \<noteq> []"
    by (metis length_0_conv)
  with False have "conditionalValueAtRisk (riskMetricsOf ds) \<noteq> None"
    by (simp add: riskMetricsOf_def Let_def)
  moreover have "conditionalValueAtRisk emptyRiskMetrics = None"
    by (simp add: emptyRiskMetrics_def)
  ultimately show ?thesis
    using False by auto
qed

lemma calculateAdvancedMetrics_empty_iff:
  "(calculateAdvancedMetrics findMany g now userId = Inr emptyAdvancedMetrics) =
     (calculateDailyReturns findMany g now userId 365 = Inr [])"
  by (cases "calculateDailyReturns findMany g now userId 365")
     (simp_all add: calculateAdvancedMetrics_def advancedMetricsOf_empty_iff)

lemma calculateRiskMetrics_empty_iff:
  "(calculateRiskMetrics findMany g now userId = Inr emptyRiskMetrics) =
     (calculateDailyReturns findMany g now userId 365 = Inr [])"
  by (cases "calculateDailyReturns findMany g now userId 365")
     (simp_all add: calculateRiskMetrics_def riskMetricsOf_empty_iff)

lemma dailyLoop_all_thrown:
  "\<forall>d. valueAt d = Inl QueryFailed \<Longrightarrow> dailyLoop valueAt start idx prev acc = Inr acc"
  by (induction idx arbitrary: prev acc) (simp_all add: Let_def)

lemma daily_returns_ledger_down:
  "calculateDailyReturns downLedger g now userId days = Inr []"
proof -
  have "\<forall>d. estimatePortfolioValueAtDate downLedger g userId d = Inl QueryFailed"
    by (simp add: estimatePortfolioValueAtDate_def downLedger_def)
  then show ?thesis
    by (simp add: calculateDailyReturns_def dailyLoop_all_thrown)
qed

text \<open>
  C1 (as the code has it). For a user with zero transactions neither function throws,
  but the daily series is not empty: it has 365 points of value 0 and return 0. So
  calculateAdvancedMetrics returns sharpeRatio, maxDrawdown and maxDrawdownPeriod
  \<open>null\<close>, averageReturn 0 and winRate 0, but volatility 0, bestDay and worstDay the
  first day with return 0, and totalTradingDays 365; calculateRiskMetrics returns
  valueAtRisk95, valueAtRisk99, downsideDeviation and sortinoRatio \<open>null\<close>, but
  conditionalValueAtRisk 0. For any user, either function returns the all-null,
  zero-count structure exactly when the daily series is empty.
\<close>

theorem zero_transactions_metrics:
  "((\<forall>d. findMany userId d = Inr []) \<longrightarrow>
      calculateAdvancedMetrics findMany g now userId =
        Inr \<lparr> sharpeRatio = None, volatility = Some 0, maxDrawdown = None,
              maxDrawdownPeriod = None, averageReturn = 0, winRate = 0,
              bestDay = Some (now - 365 * msPerDay, 0),
              worstDay = Some (now - 365 * msPerDay, 0),
              totalTradingDays = 365 \<rparr> \<and>
      calculateRiskMetrics findMany g now userId =
        Inr \<lparr> valueAtRisk95 = None, valueAtRisk99 = None,
              conditionalValueAtRisk = Some 0, downsideDeviation = None,
              sortinoRatio = None \<rparr>) \<and>
   ((calculateAdvancedMetrics findMany g now userId = Inr emptyAdvancedMetrics) =
      (calculateDailyReturns findMany g now userId 365 = Inr [])) \<and>
   ((calculateRiskMetrics findMany g now userId = Inr emptyRiskMetrics) =
      (calculateDailyReturns findMany g now userId 365 = Inr [])) \<and>
   (\<forall>dailyReturns. (advancedMetricsOf dailyReturns = emptyAdvancedMetrics) =
      (dailyReturns = [])) \<and>
   (\<forall>dailyReturns. (riskMetricsOf dailyReturns = emptyRiskMetrics) =
      (dailyReturns = []))"
proof (intro conjI impI allI)
  assume none: "\<forall>d. findMany userId d = Inr []"
  let ?ds = "map (\<lambda>i. point (now - int 365 * msPerDay + int i * msPerDay) 0 0) [0..<365]"
  have d: "calculateDailyReturns findMany g now userId 365 = Inr ?ds"
    using none by (rule daily_returns_no_transactions)
  have ne: "?ds \<noteq> []"
    by simp
  have flat: "\<forall>p\<in>set ?ds. value' p = 0 \<and> return' p = 0"
    by (simp add: point_def)
  then have flat': "\<forall>p\<in>set ?ds. return' p = 0"
    by blast
  have hd: "date (hd ?ds) = now - 365 * msPerDay"
    by (simp add: hd_map upt_conv_Cons point_def)
  have len: "length ?ds = 365"
    by simp
  have "calculateAdvancedMetrics findMany g now userId = Inr (advancedMetricsOf ?ds)"
    by (simp only: calculateAdvancedMetrics_def d sum.case)
  then show "calculateAdvancedMetrics findMany g now userId =
        Inr \<lparr> sharpeRatio = None, volatility = Some 0, maxDrawdown = None,
              maxDrawdownPeriod = None, averageReturn = 0, winRate = 0,
              bestDay = Some (now - 365 * msPerDay, 0),
              worstDay = Some (now - 365 * msPerDay, 0),
              totalTradingDays = 365 \<rparr>"
    by (simp only: advancedMetricsOf_flat [OF ne flat] hd len)
  have "calculateRiskMetrics findMany g now userId = Inr (riskMetricsOf ?ds)"
    by (simp only: calculateRiskMetrics_def d sum.case)
  then show "calculateRiskMetrics findMany g now userId =
        Inr \<lparr> valueAtRisk95 = None, valueAtRisk99 = None,
              conditionalValueAtRisk = Some 0, downsideDeviation = None,
              sortinoRatio = None \<rparr>"
    by (simp only: riskMetricsOf_flat [OF ne flat'])
next
  show "(calculateAdvancedMetrics findMany g now userId = Inr emptyAdvancedMetrics) =
          (calculateDailyReturns findMany g now userId 365 = Inr [])"
    by (rule calculateAdvancedMetrics_empty_iff)
  show "(calculateRiskMetrics findMany g now userId = Inr emptyRiskMetrics) =
          (calculateDailyReturns findMany g now userId 365 = Inr [])"
    by (rule calculateRiskMetrics_empty_iff)
  show "(advancedMetricsOf dailyReturns = emptyAdvancedMetrics) = (dailyReturns = [])"
    for dailyReturns
    by (rule advancedMetricsOf_empty_iff)
  show "(riskMetricsOf dailyReturns = emptyRiskMetrics) = (dailyReturns = [])"
    for dailyReturns
    by (rule riskMetricsOf_empty_iff)
qed

text \<open>
  An empty ledger, and a ledger whose every query rejects: only the second gives the
  empty series and with it the all-null structures.
\<close>

theorem zero_transactions_metrics_witness:
  "calculateAdvancedMetrics emptyLedger noPrices 0 ''u1'' =
     Inr \<lparr> sharpeRatio = None, volatility = Some 0, maxDrawdown = None,
           maxDrawdownPeriod = None, averageReturn = 0, winRate = 0,
           bestDay = Some (- 31536000000, 0), worstDay = Some (- 31536000000, 0),
           totalTradingDays = 365 \<rparr> \<and>
   calculateRiskMetrics emptyLedger noPrices 0 ''u1'' =
     Inr \<lparr> valueAtRisk95 = None, valueAtRisk99 = None,
           conditionalValueAtRisk = Some 0, downsideDeviation = None,
           sortinoRatio = None \<rparr> \<and>
   calculateAdvancedMetrics downLedger noPrices 0 ''u1'' = Inr emptyAdvancedMetrics \<and>
   calculateRiskMetrics downLedger noPrices 0 ''u1'' = Inr emptyRiskMetrics"
proof -
  have none: "\<forall>d. emptyLedger ''u1'' d = Inr []"
    by (simp add: emptyLedger_def)
  note empty = zero_transactions_metrics
         [where findMany = emptyLedger and userId = "''u1''" and g = noPrices and now = 0,
          THEN conjunct1, THEN mp, OF none]
  note down = zero_transactions_metrics
         [where findMany = downLedger and userId = "''u1''" and g = noPrices and now = 0,
          THEN conjunct2]
  have "calculateAdvancedMetrics downLedger noPrices 0 ''u1'' = Inr emptyAdvancedMetrics"
    by (rule down [THEN conjunct1, THEN iffD2]) (rule daily_returns_ledger_down)
  moreover
  have "calculateRiskMetrics downLedger noPrices 0 ''u1'' = Inr emptyRiskMetrics"
    by (rule down [THEN conjunct2, THEN conjunct1, THEN iffD2])
       (rule daily_returns_ledger_down)
  ultimately show ?thesis
    using empty by (simp add: msPerDay_def)
qed

text \<open>
  The claim of C1 as the specification words it fails: for a user with zero
  transactions neither result is the all-null, zero-count structure.
\<close>

theorem zero_transactions_counterexample:
  "calculateAdvancedMetrics emptyLedger noPrices 0 ''u1'' \<noteq> Inr emptyAdvancedMetrics \<and>
   calculateRiskMetrics emptyLedger noPrices 0 ''u1'' \<noteq> Inr emptyRiskMetrics"
proof -
  let ?ds = "map (\<lambda>i. point (0 - int 365 * msPerDay + int i * msPerDay) 0 0) [0..<365]"
  have d: "calculateDailyReturns emptyLedger noPrices 0 ''u1'' 365 = Inr ?ds"
    by (rule daily_returns_no_transactions) (simp add: emptyLedger_def)
  have ne: "?ds \<noteq> []"
    by simp
  have flat: "\<forall>p\<in>set ?ds. value' p = 0 \<and> return' p = 0"
    by (simp add: point_def)
  then have flat': "\<forall>p\<in>set ?ds. return' p = 0"
    by blast
  have "totalTradingDays (advancedMetricsOf ?ds) = 365"
    by (simp only: advancedMetricsOf_flat [OF ne flat]) simp
  then have "advancedMetricsOf ?ds \<noteq> emptyAdvancedMetrics"
    by (auto simp add: emptyAdvancedMetrics_def)
  moreover have "conditionalValueAtRisk (riskMetricsOf ?ds) = Some 0"
    by (simp only: riskMetricsOf_flat [OF ne flat']) simp
  then have "riskMetricsOf ?ds \<noteq> emptyRiskMetrics"
    by (auto simp add: emptyRiskMetrics_def)
  ultimately show ?thesis
    by (simp only: calculateAdvancedMetrics_def calculateRiskMetrics_def d sum.case) simp
qed

end
